theory Spec2Isabelle
  imports Complex_Main "HOL-Library.Sublist"
begin

section \<open>Heart Risk Analyzer: the data model of \<open>app.py\<close>\<close>

text \<open>
  The script stores two kinds of numbers in the raw input record: Python integers (the
  zero of the initialisation, the one of an indicator, the integer widgets) and one
  Python float (the oldpeak slider). The encoder only stores these values and never
  computes with them, so a float is carried as the real number it denotes.
\<close>

datatype pyval = PyInt int | PyFloat real

text \<open>The exceptions that the modelled statements can raise.\<close>

datatype exn =
    FileNotFoundError
  | UnpicklingError
  | KeyError "string list"
  | IndexError
  | ValueError

subsection \<open>Python dictionaries\<close>

text \<open>
  A Python \<open>dict\<close> keeps its keys in insertion order and holds each key once. It is an
  association list; \<open>d[k] = v\<close> overwrites the value of a key that is present, where it
  stands, and appends a key that is new.
\<close>

type_synonym ('k, 'v) pydict = "('k \<times> 'v) list"

fun dict_setitem :: "('k, 'v) pydict \<Rightarrow> 'k \<Rightarrow> 'v \<Rightarrow> ('k, 'v) pydict" where
  "dict_setitem [] k v = [(k, v)]"
| "dict_setitem ((k', v') # d) k v =
     (if k' = k then (k', v) # d else (k', v') # dict_setitem d k v)"

text \<open>\<open>d.update(other)\<close> stores the items of \<open>other\<close> into \<open>d\<close>, one after the other.\<close>

fun dict_update :: "('k, 'v) pydict \<Rightarrow> ('k \<times> 'v) list \<Rightarrow> ('k, 'v) pydict" where
  "dict_update d [] = d"
| "dict_update d ((k, v) # items) = dict_update (dict_setitem d k v) items"

text \<open>
  A dict display \<open>{k1: v1, ...}\<close> and a dict comprehension \<open>{k: v for ...}\<close> both start
  from the empty dict and store their items in the order they are written or produced.
\<close>

definition dict_of_items :: "('k \<times> 'v) list \<Rightarrow> ('k, 'v) pydict" where
  "dict_of_items items = dict_update [] items"

definition dict_keys :: "('k, 'v) pydict \<Rightarrow> 'k list" where
  "dict_keys d = map fst d"

subsection \<open>One-row data frames\<close>

text \<open>
  A pandas data frame is an ordered list of column labels and its rows, each row holding
  one value per column. \<open>pd.DataFrame([d])\<close> builds the frame of the single record \<open>d\<close>:
  the columns are the keys of \<open>d\<close> in their order.
\<close>

record dataframe =
  columns :: "string list"
  rows :: "pyval list list"

definition DataFrame :: "(string, pyval) pydict list \<Rightarrow> dataframe" where
  "DataFrame records =
     (case records of
        [] \<Rightarrow> \<lparr>columns = [], rows = []\<rparr>
      | d # _ \<Rightarrow> \<lparr>columns = dict_keys d, rows = [map snd d]\<rparr>)"

text \<open>
  \<open>df[cols]\<close> with a list of labels selects those columns in the order of the list. A
  label that is not a column raises \<open>KeyError\<close>, which names the labels not found.
\<close>

definition df_getitem :: "dataframe \<Rightarrow> string list \<Rightarrow> exn + dataframe" where
  "df_getitem df cols =
     (let missing = filter (\<lambda>c. c \<notin> set (columns df)) cols in
      if missing = [] then
        Inr \<lparr>columns = cols,
             rows = map (\<lambda>r. map (\<lambda>c. the (map_of (zip (columns df) r) c)) cols) (rows df)\<rparr>
      else Inl (KeyError missing))"

subsection \<open>The form (lines 128 to 143)\<close>

text \<open>The eleven values that the widgets of the form return.\<close>

record form =
  age :: int
  sex :: string
  chest_pain :: string
  resting_bp :: int
  cholesterol :: int
  fasting_bs :: int
  resting_ecg :: string
  max_hr :: int
  exercise_angina :: string
  oldpeak :: real
  st_slope :: string

text \<open>
  The values a widget can return: the bounds of each slider and number input, and the
  options of each select box. (The slider of oldpeak moves in steps of 0.1; only its
  bounds are recorded here.)
\<close>

definition valid_form :: "'z form_scheme \<Rightarrow> bool" where
  "valid_form f \<longleftrightarrow>
     18 \<le> age f \<and> age f \<le> 100 \<and>
     sex f \<in> set [''M'', ''F''] \<and>
     chest_pain f \<in> set [''ATA'', ''NAP'', ''TA'', ''ASY''] \<and>
     80 \<le> resting_bp f \<and> resting_bp f \<le> 200 \<and>
     100 \<le> cholesterol f \<and> cholesterol f \<le> 600 \<and>
     fasting_bs f \<in> set [0, 1] \<and>
     resting_ecg f \<in> set [''Normal'', ''ST'', ''LVH''] \<and>
     60 \<le> max_hr f \<and> max_hr f \<le> 220 \<and>
     exercise_angina f \<in> set [''N'', ''Y''] \<and>
     0 \<le> oldpeak f \<and> oldpeak f \<le> 62 / 10 \<and>
     st_slope f \<in> set [''Up'', ''Flat'', ''Down'']"

subsection \<open>The encoder (lines 151 to 158)\<close>

text \<open>The items of the dict display that line 152 passes to \<open>update\<close>.\<close>

definition form_items :: "'z form_scheme \<Rightarrow> (string \<times> pyval) list" where
  "form_items f =
     [(''Age'', PyInt (age f)), (''RestingBP'', PyInt (resting_bp f)),
      (''Cholesterol'', PyInt (cholesterol f)), (''FastingBS'', PyInt (fasting_bs f)),
      (''MaxHR'', PyInt (max_hr f)), (''Oldpeak'', PyFloat (oldpeak f)),
      (''Sex_'' @ sex f, PyInt 1), (''ChestPainType_'' @ chest_pain f, PyInt 1),
      (''RestingECG_'' @ resting_ecg f, PyInt 1),
      (''ExerciseAngina_'' @ exercise_angina f, PyInt 1),
      (''ST_Slope_'' @ st_slope f, PyInt 1)]"

text \<open>
  Line 151 builds the record with a zero under every expected column; lines 152 to 156
  store the eleven items into it.
\<close>

definition raw_input :: "string list \<Rightarrow> 'z form_scheme \<Rightarrow> (string, pyval) pydict" where
  "raw_input expected_columns f =
     dict_update (dict_of_items (map (\<lambda>col. (col, PyInt 0)) expected_columns))
       (dict_of_items (form_items f))"

text \<open>Line 158: the frame of the one record, projected onto the expected columns.\<close>

definition input_df :: "string list \<Rightarrow> 'z form_scheme \<Rightarrow> exn + dataframe" where
  "input_df expected_columns f =
     df_getitem (DataFrame [raw_input expected_columns f]) expected_columns"

text \<open>
  The value that the eleven items give to a column: the value of the item of that name,
  and the zero of the initialisation when there is none. The lemmas below show that this
  is what the projected row holds.
\<close>

definition encoded_value :: "'z form_scheme \<Rightarrow> string \<Rightarrow> pyval" where
  "encoded_value f c = (case map_of (form_items f) c of Some v \<Rightarrow> v | None \<Rightarrow> PyInt 0)"

text \<open>
  The prefix and the selected category of each categorical field, as lines 154 and 155
  concatenate them into the name of an indicator column.
\<close>

definition onehot_fields :: "'z form_scheme \<Rightarrow> (string \<times> string) list" where
  "onehot_fields f =
     [(''Sex_'', sex f), (''ChestPainType_'', chest_pain f),
      (''RestingECG_'', resting_ecg f), (''ExerciseAngina_'', exercise_angina f),
      (''ST_Slope_'', st_slope f)]"

subsection \<open>The scorer (lines 159 to 161)\<close>

text \<open>
  The scaler and the classifier are objects loaded from disk; the script calls
  \<open>scaler.transform\<close>, \<open>model.predict\<close> and \<open>model.predict_proba\<close> and nothing else of
  them. They are records of these methods. Each call returns its result or raises (a
  scaler given a frame it was not fitted on raises \<open>ValueError\<close>). What \<open>transform\<close>
  returns is handed to the classifier untouched, so its type is left open (\<open>'s\<close>).
  \<open>predict\<close> returns an array of labels and \<open>predict_proba\<close> an array of rows of class
  probabilities.
\<close>

record 's scaler =
  transform :: "dataframe \<Rightarrow> exn + 's"

record 's classifier =
  predict :: "'s \<Rightarrow> exn + int list"
  predict_proba :: "'s \<Rightarrow> exn + real list list"

text \<open>\<open>xs[i]\<close> for an index that is not negative: out of range raises \<open>IndexError\<close>.\<close>

definition py_getitem :: "'a list \<Rightarrow> nat \<Rightarrow> exn + 'a" where
  "py_getitem xs i = (if i < length xs then Inr (xs ! i) else Inl IndexError)"

text \<open>
  Lines 151 to 161 in one piece: encode, scale, and read the label and the probability
  of label 1. An exception of any step ends the computation: line 160 calls \<open>predict\<close>
  and takes entry 0, then line 161 calls \<open>predict_proba\<close> and takes entry 1 of row 0.
  The two values are returned as the classifier gave them; nothing checks or changes
  them.
\<close>

definition analyze ::
  "'s scaler \<Rightarrow> 's classifier \<Rightarrow> string list \<Rightarrow> 'z form_scheme \<Rightarrow> exn + (int \<times> real)" where
  "analyze scaler model expected_columns f =
     (case input_df expected_columns f of
        Inl e \<Rightarrow> Inl e
      | Inr df \<Rightarrow>
          (case transform scaler df of
             Inl e \<Rightarrow> Inl e
           | Inr scaled_input \<Rightarrow>
               (case predict model scaled_input of
                  Inl e \<Rightarrow> Inl e
                | Inr labels \<Rightarrow>
                    (case py_getitem labels 0 of
                       Inl e \<Rightarrow> Inl e
                     | Inr prediction \<Rightarrow>
                         (case predict_proba model scaled_input of
                            Inl e \<Rightarrow> Inl e
                          | Inr probas \<Rightarrow>
                              (case py_getitem probas 0 of
                                 Inl e \<Rightarrow> Inl e
                               | Inr proba_row \<Rightarrow>
                                   (case py_getitem proba_row 1 of
                                      Inl e \<Rightarrow> Inl e
                                    | Inr probability \<Rightarrow>
                                        Inr (prediction, probability))))))))"

text \<open>
  The interface of the classifier as the specification states it, \<open>predict(row) -> label\<close>
  and \<open>predict_proba(row) -> [p0, p1]\<close>: for the one row it is given, \<open>predict\<close> returns one
  label and \<open>predict_proba\<close> one row of two entries. It says nothing on the values.
\<close>

definition classifier_interface :: "'s classifier \<Rightarrow> bool" where
  "classifier_interface model \<longleftrightarrow>
     (\<forall>x. \<exists>l p0 p1. predict model x = Inr [l] \<and> predict_proba model x = Inr [[p0, p1]])"

subsection \<open>The asset loader (lines 93 to 101)\<close>

text \<open>
  What \<open>joblib.load\<close> finds under a file name: no file, a file that does not deserialise,
  or a pickled object. The first raises \<open>FileNotFoundError\<close>, the second an exception of
  the unpickler, the third returns the object.
\<close>

datatype 'a stored = Missing | Damaged | Pickled 'a

fun joblib_load :: "'a stored \<Rightarrow> exn + 'a" where
  "joblib_load Missing = Inl FileNotFoundError"
| "joblib_load Damaged = Inl UnpicklingError"
| "joblib_load (Pickled x) = Inr x"

text \<open>The three files that the loader reads, each under its fixed name.\<close>

record 's disk =
  KNN_heart_pkl :: "'s classifier stored"
  scaler_pkl :: "'s scaler stored"
  columns_pkl :: "string list stored"

type_synonym 's assets = "'s classifier option \<times> 's scaler option \<times> string list option"

text \<open>
  The body of the \<open>try\<close>: the three loads in their order; the first exception ends it.
\<close>

definition load_assets_try :: "'s disk \<Rightarrow> exn + 's assets" where
  "load_assets_try d =
     (case joblib_load (KNN_heart_pkl d) of
        Inl e \<Rightarrow> Inl e
      | Inr model \<Rightarrow>
          (case joblib_load (scaler_pkl d) of
             Inl e \<Rightarrow> Inl e
           | Inr scaler \<Rightarrow>
               (case joblib_load (columns_pkl d) of
                  Inl e \<Rightarrow> Inl e
                | Inr expected_columns \<Rightarrow>
                    Inr (Some model, Some scaler, Some expected_columns))))"

text \<open>
  \<open>except FileNotFoundError\<close> turns that one exception into the triple of \<open>None\<close>; any
  other exception leaves the function.
\<close>

definition load_assets :: "'s disk \<Rightarrow> exn + 's assets" where
  "load_assets d =
     (case load_assets_try d of
        Inl e \<Rightarrow> if e = FileNotFoundError then Inr (None, None, None) else Inl e
      | Inr r \<Rightarrow> Inr r)"

subsection \<open>The script\<close>

text \<open>
  A run of the script is the list of elements it puts on the page, in order, and the way
  the run ends. Texts that only decorate are shortened.
\<close>

datatype ui =
    PageConfig
  | ThemeCss
  | Error string
  | Success string
  | Title string
  | Write string
  | Markdown string
  | Info string
  | Subheader string
  | Caption string
  | Slider string
  | Selectbox string
  | NumberInput string
  | Button string
  | Spinner string
  | ProbabilityText real
  | GaugeChart real

datatype outcome = Completed | Stopped | Raised exn

text \<open>What the widgets return in a run: the form, and whether the button was pressed.\<close>

record widgets = form +
  analyze_clicked :: bool

text \<open>
  Truth values, as \<open>all\<close> reads them at line 105: \<open>None\<close> is false, a loaded estimator
  object is true, and a list is true when it is not empty.
\<close>

fun truthy_object :: "'a option \<Rightarrow> bool" where
  "truthy_object None = False"
| "truthy_object (Some _) = True"

fun truthy_list :: "'a list option \<Rightarrow> bool" where
  "truthy_list None = False"
| "truthy_list (Some xs) = (xs \<noteq> [])"

definition sidebar :: "ui list" where
  "sidebar =
     [Title ''Heart Risk Analyzer'',
      Write ''This machine learning application provides a predictive analysis of heart disease risk based on key health metrics.'',
      Info ''This is a demonstration and not a substitute for professional medical advice.'']"

definition header :: "ui list" where
  "header =
     [Title ''Heart Disease Risk Analyzer'',
      Markdown ''Enter patient data for a predictive risk assessment.'']"

definition input_form :: "ui list" where
  "input_form =
     [Subheader ''Patient Vitals & Health Metrics'',
      Slider ''Age'', Selectbox ''Sex'', Selectbox ''Chest Pain Type'',
      NumberInput ''Resting BP (mm Hg)'', NumberInput ''Cholesterol (mg/dL)'',
      Selectbox ''Fasting Blood Sugar > 120 mg/dL'',
      Selectbox ''Resting ECG'', Slider ''Max Heart Rate'', Selectbox ''Exercise Angina'',
      Slider ''Oldpeak (ST Depression)'', Selectbox ''ST Slope'']"

definition results :: "int \<Rightarrow> real \<Rightarrow> ui list" where
  "results prediction probability =
     [Write ''---'', Subheader ''Analysis Complete'',
      (if prediction = 1 then Error ''Finding: High Risk Detected''
       else Success ''Finding: Low Risk Detected''),
      ProbabilityText probability,
      Caption ''Disclaimer: This is a predictive model, not a medical diagnosis.'',
      GaugeChart (probability * 100)]"

text \<open>
  Lines 105 to 198, with the three values that line 103 has bound: the error and the stop
  when one of them is false, else the page and, when the button was pressed, the analysis
  of the form. The two elements of lines 8 to 89 (page configuration and theme) are on the
  page already.
\<close>

definition after_load :: "'s assets \<Rightarrow> widgets \<Rightarrow> ui list \<times> outcome" where
  "after_load a w =
     (case a of (model, scaler, expected_columns) \<Rightarrow>
        if \<not> list_all (\<lambda>b. b)
               [truthy_object model, truthy_object scaler, truthy_list expected_columns]
        then ([PageConfig, ThemeCss, Error ''Error: Critical model files are missing.''],
              Stopped)
        else
          let page = [PageConfig, ThemeCss] @ sidebar @ header @ input_form @
                     [Button ''Analyze Risk'']
          in if analyze_clicked w then
               (case analyze (the scaler) (the model) (the expected_columns) w of
                  Inl e \<Rightarrow> (page @ [Spinner ''Analyzing...''], Raised e)
                | Inr (prediction, probability) \<Rightarrow>
                    (page @ [Spinner ''Analyzing...''] @ results prediction probability,
                     Completed))
             else (page, Completed))"

text \<open>
  The whole script: lines 8 to 89 configure the page and its theme, line 103 loads the
  assets, and an exception that leaves the loader ends the run there.
\<close>

definition script :: "'s disk \<Rightarrow> widgets \<Rightarrow> ui list \<times> outcome" where
  "script d w =
     (case load_assets d of
        Inl e \<Rightarrow> ([PageConfig, ThemeCss], Raised e)
      | Inr a \<Rightarrow> after_load a w)"

text \<open>The elements that belong to the form and to the handling of a request.\<close>

fun form_or_request :: "ui \<Rightarrow> bool" where
  "form_or_request (Slider _) = True"
| "form_or_request (Selectbox _) = True"
| "form_or_request (NumberInput _) = True"
| "form_or_request (Button _) = True"
| "form_or_request (Spinner _) = True"
| "form_or_request (ProbabilityText _) = True"
| "form_or_request (GaugeChart _) = True"
| "form_or_request _ = False"

subsection \<open>Inputs for the examples\<close>

text \<open>
  The input of the scenario of the specification; these are also the values that the
  widgets hold when the page is first drawn.
\<close>

definition scenario_form :: form where
  "scenario_form =
     \<lparr>age = 40, sex = ''M'', chest_pain = ''ATA'', resting_bp = 120, cholesterol = 200,
      fasting_bs = 0, resting_ecg = ''Normal'', max_hr = 150, exercise_angina = ''N'',
      oldpeak = 1, st_slope = ''Up''\<rparr>"

text \<open>
  Two column lists that a training script can have written to \<open>columns.pkl\<close>: one with an
  indicator for every category, and one where the first category of each field was
  dropped (\<open>drop_first\<close>), which has no column \<open>ExerciseAngina_N\<close>.
\<close>

definition all_dummies_columns :: "string list" where
  "all_dummies_columns =
     [''Age'', ''RestingBP'', ''Cholesterol'', ''FastingBS'', ''MaxHR'', ''Oldpeak'',
      ''Sex_F'', ''Sex_M'',
      ''ChestPainType_ASY'', ''ChestPainType_ATA'', ''ChestPainType_NAP'', ''ChestPainType_TA'',
      ''RestingECG_LVH'', ''RestingECG_Normal'', ''RestingECG_ST'',
      ''ExerciseAngina_N'', ''ExerciseAngina_Y'',
      ''ST_Slope_Down'', ''ST_Slope_Flat'', ''ST_Slope_Up'']"

definition drop_first_columns :: "string list" where
  "drop_first_columns =
     [''Age'', ''RestingBP'', ''Cholesterol'', ''FastingBS'', ''MaxHR'', ''Oldpeak'',
      ''Sex_M'',
      ''ChestPainType_ATA'', ''ChestPainType_NAP'', ''ChestPainType_TA'',
      ''RestingECG_Normal'', ''RestingECG_ST'',
      ''ExerciseAngina_Y'',
      ''ST_Slope_Flat'', ''ST_Slope_Up'']"

text \<open>
  A classifier that answers the same for every input, and a scaler that returns the rows
  of the frame as numbers.
\<close>

definition constant_classifier :: "real list list classifier" where
  "constant_classifier =
     \<lparr>predict = (\<lambda>x. Inr [1]), predict_proba = (\<lambda>x. Inr [[1 / 4, 3 / 4]])\<rparr>"

definition unit_scaler :: "real list list scaler" where
  "unit_scaler =
     \<lparr>transform = (\<lambda>df. Inr (map (map (\<lambda>v. case v of PyInt i \<Rightarrow> of_int i | PyFloat x \<Rightarrow> x))
                                  (rows df)))\<rparr>"

text \<open>A scaler that rejects every frame, as one fitted on other columns does.\<close>

definition failing_scaler :: "real list list scaler" where
  "failing_scaler = \<lparr>transform = (\<lambda>df. Inl ValueError)\<rparr>"

text \<open>
  A classifier object that has the two methods with the shapes of the interface, and
  whose label and scores are outside the ranges of a binary classifier.
\<close>

definition out_of_range_classifier :: "real list list classifier" where
  "out_of_range_classifier =
     \<lparr>predict = (\<lambda>x. Inr [7]), predict_proba = (\<lambda>x. Inr [[- 4, 5]])\<rparr>"

section \<open>Dictionaries: lookups and keys\<close>

lemma map_of_dict_setitem: "map_of (dict_setitem d k v) = (map_of d)(k \<mapsto> v)"
  by (induction d k v rule: dict_setitem.induct) auto

lemma keys_dict_setitem: "fst ` set (dict_setitem d k v) = insert k (fst ` set d)"
  by (induction d k v rule: dict_setitem.induct) auto

lemma keys_dict_update: "fst ` set (dict_update d items) = fst ` set d \<union> fst ` set items"
  by (induction d items rule: dict_update.induct) (auto simp: keys_dict_setitem)

lemma map_of_dict_update:
  "distinct (map fst items) \<Longrightarrow>
   map_of (dict_update d items) c = (case map_of items c of Some v \<Rightarrow> Some v | None \<Rightarrow> map_of d c)"
proof (induction d items rule: dict_update.induct)
  case (1 d)
  show ?case by simp
next
  case (2 d k v items)
  from 2 have "map_of items k = None"
    by (simp add: map_of_eq_None_iff)
  with 2 show ?case
    by (simp add: map_of_dict_setitem split: option.splits)
qed

lemma map_of_dict_of_items:
  "distinct (map fst items) \<Longrightarrow> map_of (dict_of_items items) = map_of items"
  by (rule ext) (simp add: dict_of_items_def map_of_dict_update split: option.splits)

lemma distinct_dict_setitem: "distinct (map fst d) \<Longrightarrow> distinct (map fst (dict_setitem d k v))"
  by (induction d k v rule: dict_setitem.induct) (auto simp: keys_dict_setitem)

lemma distinct_dict_update: "distinct (map fst d) \<Longrightarrow> distinct (map fst (dict_update d items))"
  by (induction d items rule: dict_update.induct) (auto simp: distinct_dict_setitem)

lemma distinct_dict_of_items: "distinct (map fst (dict_of_items items))"
  by (simp add: dict_of_items_def distinct_dict_update)

lemma map_of_zeros:
  "map_of (dict_update d (map (\<lambda>col. (col, z)) cols)) c =
     (if c \<in> set cols then Some z else map_of d c)"
  by (induction cols arbitrary: d) (auto simp: map_of_dict_setitem)

section \<open>The raw input record\<close>

lemma distinct_form_items: "distinct (map fst (form_items f))"
  by (simp add: form_items_def)

lemma map_of_raw_input:
  "map_of (raw_input ec f) c =
     (case map_of (form_items f) c of
        Some v \<Rightarrow> Some v
      | None \<Rightarrow> if c \<in> set ec then Some (PyInt 0) else None)"
  unfolding raw_input_def
  by (simp add: map_of_dict_update[OF distinct_dict_of_items]
        map_of_dict_of_items[OF distinct_form_items]
        dict_of_items_def[of "map f xs" for f xs] map_of_zeros split: option.splits)

lemma keys_zero_record:
  "set (dict_keys (dict_of_items (map (\<lambda>col. (col, PyInt 0)) ec))) = set ec"
  by (simp add: dict_keys_def dict_of_items_def keys_dict_update image_image)

lemma keys_raw_input:
  "set (dict_keys (raw_input ec f)) = set ec \<union> fst ` set (form_items f)"
  unfolding raw_input_def dict_keys_def
  by (simp add: keys_dict_update dict_of_items_def image_image)

text \<open>
  Every expected column is a key of the record, so the projection finds all of them, and
  the row it returns holds, column by column, the value of the item or the zero.
\<close>

lemma input_df_eq:
  "input_df ec f = Inr \<lparr>columns = ec, rows = [map (encoded_value f) ec]\<rparr>"
proof -
  let ?d = "raw_input ec f"
  have sub: "filter (\<lambda>c. c \<notin> set (dict_keys ?d)) ec = []"
    by (simp add: keys_raw_input filter_empty_conv)
  have z: "zip (dict_keys ?d) (map snd ?d) = ?d"
    by (simp add: dict_keys_def zip_map_fst_snd)
  have "map (\<lambda>c. the (map_of ?d c)) ec = map (encoded_value f) ec"
    by (rule map_cong) (simp_all add: map_of_raw_input encoded_value_def split: option.splits)
  with sub z show ?thesis
    by (simp add: input_df_def df_getitem_def DataFrame_def)
qed

text \<open>
  The name of an indicator column starts with the prefix of its field, and no other item
  has a name that starts so: under a name with that prefix stands the one of the selected
  category or nothing.
\<close>

lemma item_Sex:
  "map_of (form_items f) (''Sex_'' @ t) = (if t = sex f then Some (PyInt 1) else None)"
  by (simp add: form_items_def)

lemma item_ChestPainType:
  "map_of (form_items f) (''ChestPainType_'' @ t) =
     (if t = chest_pain f then Some (PyInt 1) else None)"
  by (simp add: form_items_def)

lemma item_RestingECG:
  "map_of (form_items f) (''RestingECG_'' @ t) =
     (if t = resting_ecg f then Some (PyInt 1) else None)"
  by (simp add: form_items_def)

lemma item_ExerciseAngina:
  "map_of (form_items f) (''ExerciseAngina_'' @ t) =
     (if t = exercise_angina f then Some (PyInt 1) else None)"
  by (simp add: form_items_def)

lemma item_ST_Slope:
  "map_of (form_items f) (''ST_Slope_'' @ t) =
     (if t = st_slope f then Some (PyInt 1) else None)"
  by (simp add: form_items_def)

lemma item_onehot:
  assumes "(p, s) \<in> set (onehot_fields f)"
  shows "map_of (form_items f) (p @ t) = (if t = s then Some (PyInt 1) else None)"
proof -
  from assms have
    "(p = ''Sex_'' \<and> s = sex f) \<or> (p = ''ChestPainType_'' \<and> s = chest_pain f) \<or>
     (p = ''RestingECG_'' \<and> s = resting_ecg f) \<or>
     (p = ''ExerciseAngina_'' \<and> s = exercise_angina f) \<or>
     (p = ''ST_Slope_'' \<and> s = st_slope f)"
    by (simp add: onehot_fields_def)
  then show ?thesis
    using item_Sex[of f t] item_ChestPainType[of f t] item_RestingECG[of f t]
      item_ExerciseAngina[of f t] item_ST_Slope[of f t]
    by (elim disjE conjE) (simp_all only:)
qed


lemma encoded_value_selected:
  "(p, s) \<in> set (onehot_fields f) \<Longrightarrow> encoded_value f (p @ s) = PyInt 1"
  by (simp add: encoded_value_def item_onehot)

lemma encoded_value_sibling:
  assumes "(p, s) \<in> set (onehot_fields f)" and "prefix p c" and "c \<noteq> p @ s"
  shows "encoded_value f c = PyInt 0"
proof -
  from \<open>prefix p c\<close> obtain t where c: "c = p @ t"
    by (auto simp: prefix_def)
  with \<open>c \<noteq> p @ s\<close> have "t \<noteq> s" by simp
  then show ?thesis
    by (simp add: c encoded_value_def item_onehot[OF assms(1)])
qed

section \<open>The claims\<close>

subsection \<open>The encoder\<close>

text \<open>
  Claim C1. For every combination of the eleven form inputs (valid or not) and every list
  of expected columns, line 158 returns a table and raises nothing; the columns of the
  table are the expected columns, the same labels in the same order, and its one row
  holds one value per column.
\<close>

theorem encoded_columns:
  "\<exists>row. input_df ec f = Inr \<lparr>columns = ec, rows = [row]\<rparr> \<and> length row = length ec"
  by (simp add: input_df_eq)

theorem encoded_columns_witness:
  "\<exists>row. input_df drop_first_columns scenario_form =
           Inr \<lparr>columns = drop_first_columns, rows = [row]\<rparr> \<and>
         length row = length drop_first_columns"
  by (rule encoded_columns)

text \<open>
  Claim C2. Let every indicator name built from the five categorical selections be an
  expected column. Then for each categorical field with prefix \<open>p\<close> and selection \<open>s\<close>:
  the column \<open>p @ s\<close> is in the row; every column whose name starts with \<open>p\<close> holds 1
  when it is the column \<open>p @ s\<close> and 0 otherwise; and when the expected columns are
  pairwise different, exactly one position of the row has a name that starts with \<open>p\<close>
  and holds 1. Validity of the selection is not needed.
\<close>

theorem onehot_exactly_one:
  assumes pre: "\<forall>(p, s) \<in> set (onehot_fields f). p @ s \<in> set ec"
    and field: "(p, s) \<in> set (onehot_fields f)"
  shows "\<exists>row. input_df ec f = Inr \<lparr>columns = ec, rows = [row]\<rparr> \<and>
           length row = length ec \<and>
           (\<exists>i < length ec. ec ! i = p @ s) \<and>
           (\<forall>i < length ec. prefix p (ec ! i) \<longrightarrow>
              row ! i = (if ec ! i = p @ s then PyInt 1 else PyInt 0)) \<and>
           (distinct ec \<longrightarrow> (\<exists>!i. i < length ec \<and> prefix p (ec ! i) \<and> row ! i = PyInt 1))"
proof -
  let ?row = "map (encoded_value f) ec"
  from pre field have "p @ s \<in> set ec" by auto
  then obtain i0 where i0: "i0 < length ec" "ec ! i0 = p @ s"
    by (auto simp: in_set_conv_nth)
  have cells: "row_i = (if ec ! i = p @ s then PyInt 1 else PyInt 0)"
    if "i < length ec" "prefix p (ec ! i)" "row_i = ?row ! i" for i row_i
    using that encoded_value_selected[OF field] encoded_value_sibling[OF field, of "ec ! i"]
    by simp
  have uniq: "\<exists>!i. i < length ec \<and> prefix p (ec ! i) \<and> ?row ! i = PyInt 1" if d: "distinct ec"
  proof (rule ex1I[of _ i0])
    show "i0 < length ec \<and> prefix p (ec ! i0) \<and> ?row ! i0 = PyInt 1"
      using i0 encoded_value_selected[OF field] by simp
  next
    fix i assume a: "i < length ec \<and> prefix p (ec ! i) \<and> ?row ! i = PyInt 1"
    with cells[of i "?row ! i"] have "ec ! i = p @ s"
      by (simp split: if_splits)
    with a i0 nth_eq_iff_index_eq[OF d, of i i0] show "i = i0"
      by simp
  qed
  show ?thesis
    apply (rule exI[of _ ?row])
    using i0 cells uniq by (auto simp: input_df_eq)
qed

theorem onehot_exactly_one_witness:
  "valid_form scenario_form \<and>
   set (map (\<lambda>(p, s). p @ s) (onehot_fields scenario_form)) \<subseteq> set all_dummies_columns \<and>
   (''Sex_'', ''M'') \<in> set (onehot_fields scenario_form) \<and>
   (\<exists>row. input_df all_dummies_columns scenario_form =
            Inr \<lparr>columns = all_dummies_columns, rows = [row]\<rparr> \<and>
          length row = length all_dummies_columns \<and>
          (\<exists>i < length all_dummies_columns. all_dummies_columns ! i = ''Sex_'' @ ''M'') \<and>
          (\<forall>i < length all_dummies_columns. prefix ''Sex_'' (all_dummies_columns ! i) \<longrightarrow>
             row ! i = (if all_dummies_columns ! i = ''Sex_'' @ ''M'' then PyInt 1 else PyInt 0)) \<and>
          (distinct all_dummies_columns \<longrightarrow>
             (\<exists>!i. i < length all_dummies_columns \<and> prefix ''Sex_'' (all_dummies_columns ! i) \<and>
                   row ! i = PyInt 1)))"
proof -
  have v: "valid_form scenario_form"
    by (simp add: valid_form_def scenario_form_def)
  have pre: "\<forall>(p, s) \<in> set (onehot_fields scenario_form). p @ s \<in> set all_dummies_columns"
    by (simp add: onehot_fields_def scenario_form_def all_dummies_columns_def)
  have field: "(''Sex_'', ''M'') \<in> set (onehot_fields scenario_form)"
    by (simp add: onehot_fields_def scenario_form_def)
  from pre have sub:
    "set (map (\<lambda>(p, s). p @ s) (onehot_fields scenario_form)) \<subseteq> set all_dummies_columns"
    by auto
  from v sub field onehot_exactly_one[OF pre field] show ?thesis
    by (intro conjI)
qed

text \<open>
  Claim C3. For the input of the scenario the raw record holds Age = 40, RestingBP = 120,
  Cholesterol = 200, FastingBS = 0, MaxHR = 150, Oldpeak = 1.0 and a 1 under Sex_M,
  ChestPainType_ATA, RestingECG_Normal, ExerciseAngina_N and ST_Slope_Up, and a 0 under
  every other expected column; and the projected row holds under each expected column
  the value of that list when the column is one of the eleven, and 0 otherwise. This is
  so for every list of expected columns.
\<close>

theorem scenario_row:
  "map (map_of (raw_input ec scenario_form))
     [''Age'', ''RestingBP'', ''Cholesterol'', ''FastingBS'', ''MaxHR'', ''Oldpeak'',
      ''Sex_M'', ''ChestPainType_ATA'', ''RestingECG_Normal'', ''ExerciseAngina_N'',
      ''ST_Slope_Up''] =
     [Some (PyInt 40), Some (PyInt 120), Some (PyInt 200), Some (PyInt 0), Some (PyInt 150),
      Some (PyFloat 1), Some (PyInt 1), Some (PyInt 1), Some (PyInt 1), Some (PyInt 1),
      Some (PyInt 1)] \<and>
   (\<forall>c \<in> set ec.
      c \<notin> set [''Age'', ''RestingBP'', ''Cholesterol'', ''FastingBS'', ''MaxHR'', ''Oldpeak'',
               ''Sex_M'', ''ChestPainType_ATA'', ''RestingECG_Normal'', ''ExerciseAngina_N'',
               ''ST_Slope_Up''] \<longrightarrow>
      map_of (raw_input ec scenario_form) c = Some (PyInt 0)) \<and>
   input_df ec scenario_form =
     Inr \<lparr>columns = ec,
          rows = [map (\<lambda>c. if c = ''Age'' then PyInt 40
                           else if c = ''RestingBP'' then PyInt 120
                           else if c = ''Cholesterol'' then PyInt 200
                           else if c = ''FastingBS'' then PyInt 0
                           else if c = ''MaxHR'' then PyInt 150
                           else if c = ''Oldpeak'' then PyFloat 1
                           else if c \<in> set [''Sex_M'', ''ChestPainType_ATA'',
                                     ''RestingECG_Normal'', ''ExerciseAngina_N'',
                                     ''ST_Slope_Up'']
                           then PyInt 1
                           else PyInt 0) ec]\<rparr>"
proof -
  have items: "form_items scenario_form =
      [(''Age'', PyInt 40), (''RestingBP'', PyInt 120), (''Cholesterol'', PyInt 200),
       (''FastingBS'', PyInt 0), (''MaxHR'', PyInt 150), (''Oldpeak'', PyFloat 1),
       (''Sex_M'', PyInt 1), (''ChestPainType_ATA'', PyInt 1), (''RestingECG_Normal'', PyInt 1),
       (''ExerciseAngina_N'', PyInt 1), (''ST_Slope_Up'', PyInt 1)]"
    by (simp add: form_items_def scenario_form_def)
  have "encoded_value scenario_form c =
          (if c = ''Age'' then PyInt 40
           else if c = ''RestingBP'' then PyInt 120
           else if c = ''Cholesterol'' then PyInt 200
           else if c = ''FastingBS'' then PyInt 0
           else if c = ''MaxHR'' then PyInt 150
           else if c = ''Oldpeak'' then PyFloat 1
           else if c \<in> set [''Sex_M'', ''ChestPainType_ATA'', ''RestingECG_Normal'',
                     ''ExerciseAngina_N'', ''ST_Slope_Up'']
           then PyInt 1
           else PyInt 0)" for c
    unfolding encoded_value_def items by auto
  then have row: "encoded_value scenario_form =
      (\<lambda>c. if c = ''Age'' then PyInt 40
           else if c = ''RestingBP'' then PyInt 120
           else if c = ''Cholesterol'' then PyInt 200
           else if c = ''FastingBS'' then PyInt 0
           else if c = ''MaxHR'' then PyInt 150
           else if c = ''Oldpeak'' then PyFloat 1
           else if c \<in> set [''Sex_M'', ''ChestPainType_ATA'', ''RestingECG_Normal'',
                     ''ExerciseAngina_N'', ''ST_Slope_Up'']
           then PyInt 1
           else PyInt 0)"
    by (rule ext)
  have keys: "map (map_of (raw_input ec scenario_form))
     [''Age'', ''RestingBP'', ''Cholesterol'', ''FastingBS'', ''MaxHR'', ''Oldpeak'',
      ''Sex_M'', ''ChestPainType_ATA'', ''RestingECG_Normal'', ''ExerciseAngina_N'',
      ''ST_Slope_Up''] =
     [Some (PyInt 40), Some (PyInt 120), Some (PyInt 200), Some (PyInt 0), Some (PyInt 150),
      Some (PyFloat 1), Some (PyInt 1), Some (PyInt 1), Some (PyInt 1), Some (PyInt 1),
      Some (PyInt 1)]"
    unfolding map_of_raw_input items by simp
  have others: "map_of (raw_input ec scenario_form) c = Some (PyInt 0)"
    if "c \<in> set ec"
      "c \<notin> set [''Age'', ''RestingBP'', ''Cholesterol'', ''FastingBS'', ''MaxHR'', ''Oldpeak'',
               ''Sex_M'', ''ChestPainType_ATA'', ''RestingECG_Normal'', ''ExerciseAngina_N'',
               ''ST_Slope_Up'']" for c
    using that unfolding map_of_raw_input items by simp
  from keys others show ?thesis
    unfolding input_df_eq row by blast
qed

theorem scenario_row_witness:
  "input_df all_dummies_columns scenario_form =
     Inr \<lparr>columns = all_dummies_columns,
          rows = [[PyInt 40, PyInt 120, PyInt 200, PyInt 0, PyInt 150, PyFloat 1,
                   PyInt 0, PyInt 1,
                   PyInt 0, PyInt 1, PyInt 0, PyInt 0,
                   PyInt 0, PyInt 1, PyInt 0,
                   PyInt 1, PyInt 0,
                   PyInt 0, PyInt 0, PyInt 1]]\<rparr>"
  using scenario_row[of all_dummies_columns]
  by (simp add: all_dummies_columns_def)

text \<open>
  Claim C6. When the indicator name built from a selected category is not an expected
  column, the encoding still returns a table and raises nothing, and every column of the
  row whose name starts with the prefix of that field holds 0. The witness is a valid
  input with such a selection: exercise angina \<open>N\<close> against columns where the first
  category of each field was dropped.
\<close>

theorem absent_indicator_all_zero:
  assumes field: "(p, s) \<in> set (onehot_fields f)"
    and absent: "p @ s \<notin> set ec"
  shows "\<exists>row. input_df ec f = Inr \<lparr>columns = ec, rows = [row]\<rparr> \<and>
           length row = length ec \<and>
           (\<forall>i < length ec. prefix p (ec ! i) \<longrightarrow> row ! i = PyInt 0)"
proof -
  have "encoded_value f (ec ! i) = PyInt 0" if "i < length ec" "prefix p (ec ! i)" for i
  proof -
    from that(1) absent have "ec ! i \<noteq> p @ s"
      by (metis nth_mem)
    with field that(2) show ?thesis
      by (rule encoded_value_sibling)
  qed
  then show ?thesis
    by (simp add: input_df_eq)
qed

theorem absent_indicator_all_zero_witness:
  "valid_form scenario_form \<and>
   (''ExerciseAngina_'', ''N'') \<in> set (onehot_fields scenario_form) \<and>
   ''ExerciseAngina_'' @ ''N'' \<notin> set drop_first_columns \<and>
   (\<exists>row. input_df drop_first_columns scenario_form =
            Inr \<lparr>columns = drop_first_columns, rows = [row]\<rparr> \<and>
          length row = length drop_first_columns \<and>
          (\<forall>i < length drop_first_columns.
             prefix ''ExerciseAngina_'' (drop_first_columns ! i) \<longrightarrow> row ! i = PyInt 0))"
proof -
  have v: "valid_form scenario_form"
    by (simp add: valid_form_def scenario_form_def)
  have field: "(''ExerciseAngina_'', ''N'') \<in> set (onehot_fields scenario_form)"
    by (simp add: onehot_fields_def scenario_form_def)
  have absent: "''ExerciseAngina_'' @ ''N'' \<notin> set drop_first_columns"
    by (simp add: drop_first_columns_def)
  from v field absent absent_indicator_all_zero[OF field absent] show ?thesis
    by (intro conjI)
qed

text \<open>
  Claim C10. For every choice of the eleven values and every list of expected columns,
  each expected column is a key of the record that line 151 builds, each is still a key
  after the update of line 152, and therefore the projection of line 158 raises no
  \<open>KeyError\<close>, nor anything else.
\<close>

theorem projection_never_fails:
  "set ec \<subseteq> set (dict_keys (dict_of_items (map (\<lambda>col. (col, PyInt 0)) ec))) \<and>
   set ec \<subseteq> set (dict_keys (raw_input ec f)) \<and>
   (\<forall>e. input_df ec f \<noteq> Inl e)"
  by (simp add: keys_zero_record keys_raw_input input_df_eq)

theorem projection_never_fails_witness:
  "set drop_first_columns \<subseteq>
     set (dict_keys (dict_of_items (map (\<lambda>col. (col, PyInt 0)) drop_first_columns))) \<and>
   set drop_first_columns \<subseteq> set (dict_keys (raw_input drop_first_columns scenario_form)) \<and>
   (\<forall>e. input_df drop_first_columns scenario_form \<noteq> Inl e)"
  by (rule projection_never_fails)

subsection \<open>The scorer\<close>

text \<open>
  Claim C7, as the code has it. Let the classifier keep its stated interface: \<open>predict\<close>
  returns one label and \<open>predict_proba\<close> one row \<open>[p0, p1]\<close>. Then the encoding returns
  its table, and lines 159 to 161 do one of two things. When \<open>transform\<close> raises, its
  exception leaves the scorer. When \<open>transform\<close> returns, the scorer returns the label of
  \<open>predict\<close> together with \<open>p1\<close>, the second entry of the row of \<open>predict_proba\<close>, both
  unchanged. So the label is 0 or 1 and the probability lies between 0 and 1 exactly
  when the values that the classifier returns do.
\<close>

theorem scorer_output:
  assumes "classifier_interface model"
  shows "\<exists>df. input_df ec f = Inr df \<and>
           (case transform scaler df of
              Inl e \<Rightarrow> analyze scaler model ec f = Inl e
            | Inr x \<Rightarrow>
                (\<exists>l p0 p1. predict model x = Inr [l] \<and>
                   predict_proba model x = Inr [[p0, p1]] \<and>
                   analyze scaler model ec f = Inr (l, p1)))"
proof -
  let ?df = "\<lparr>columns = ec, rows = [map (encoded_value f) ec]\<rparr>"
  have enc: "input_df ec f = Inr ?df"
    by (rule input_df_eq)
  show ?thesis
  proof (cases "transform scaler ?df")
    case (Inl e)
    then have "analyze scaler model ec f = Inl e"
      by (simp add: analyze_def enc)
    with enc Inl show ?thesis
      by simp
  next
    case (Inr x)
    from assms obtain l p0 p1 where
      m: "predict model x = Inr [l]" "predict_proba model x = Inr [[p0, p1]]"
      unfolding classifier_interface_def by blast
    have "analyze scaler model ec f = Inr (l, p1)"
      by (simp add: analyze_def enc Inr m py_getitem_def)
    with enc Inr m show ?thesis
      by simp
  qed
qed

theorem scorer_output_witness:
  "classifier_interface constant_classifier \<and>
   analyze unit_scaler constant_classifier drop_first_columns scenario_form =
     Inr (1, 3 / 4) \<and>
   analyze failing_scaler constant_classifier drop_first_columns scenario_form =
     Inl ValueError"
proof -
  have "\<exists>l p0 p1. (Inr [1] :: exn + int list) = Inr [l] \<and>
          (Inr [[1 / 4, 3 / 4]] :: exn + real list list) = Inr [[p0, p1]]"
    by (rule exI[of _ 1], rule exI[of _ "1 / 4"], rule exI[of _ "3 / 4"]) simp
  then have b: "classifier_interface constant_classifier"
    unfolding classifier_interface_def constant_classifier_def by simp
  have "analyze unit_scaler constant_classifier drop_first_columns scenario_form =
          Inr (1, 3 / 4)"
    using scorer_output[OF b, of drop_first_columns scenario_form unit_scaler]
    by (auto simp: unit_scaler_def constant_classifier_def)
  moreover
  have "analyze failing_scaler constant_classifier drop_first_columns scenario_form =
          Inl ValueError"
    using scorer_output[OF b, of drop_first_columns scenario_form failing_scaler]
    by (auto simp: failing_scaler_def)
  ultimately show ?thesis
    using b by (intro conjI)
qed

text \<open>
  Claim C7 as it is stated fails: a classifier object that keeps the stated interface
  and answers with the label 7 and the row \<open>[-4, 5]\<close> makes the scorer return the label 7
  and the probability 5. No label in 0, 1 and no probability between 0 and 1 is returned.
\<close>

theorem scorer_output_counterexample:
  "classifier_interface out_of_range_classifier \<and>
   analyze unit_scaler out_of_range_classifier drop_first_columns scenario_form =
     Inr (7, 5) \<and>
   \<not> (\<exists>l p. analyze unit_scaler out_of_range_classifier drop_first_columns scenario_form =
              Inr (l, p) \<and> (l = 0 \<or> l = 1) \<and> 0 \<le> p \<and> p \<le> 1)"
proof -
  have i: "classifier_interface out_of_range_classifier"
    unfolding classifier_interface_def out_of_range_classifier_def by simp
  have a: "analyze unit_scaler out_of_range_classifier drop_first_columns scenario_form =
             Inr (7, 5)"
    by (simp add: analyze_def input_df_eq unit_scaler_def out_of_range_classifier_def
        py_getitem_def)
  from i a show ?thesis
    by simp
qed

subsection \<open>The asset loader and the start of the script\<close>

text \<open>
  Claim C4, as the code has it. The loader returns the triple of \<open>None\<close>, and no
  exception leaves it, when a file is absent and every file that is loaded before it
  (the model, then the scaler, then the columns) deserialises.
\<close>

theorem load_assets_missing:
  assumes "KNN_heart_pkl d = Missing \<or>
           (\<exists>m. KNN_heart_pkl d = Pickled m \<and>
             (scaler_pkl d = Missing \<or>
              (\<exists>s. scaler_pkl d = Pickled s \<and> columns_pkl d = Missing)))"
  shows "load_assets d = Inr (None, None, None)"
  using assms by (auto simp: load_assets_def load_assets_try_def)

theorem load_assets_missing_witness:
  "scaler_pkl \<lparr>KNN_heart_pkl = Pickled constant_classifier, scaler_pkl = Missing,
                columns_pkl = Pickled drop_first_columns\<rparr> = Missing \<and>
   load_assets \<lparr>KNN_heart_pkl = Pickled constant_classifier, scaler_pkl = Missing,
                columns_pkl = Pickled drop_first_columns\<rparr> = Inr (None, None, None)"
  using load_assets_missing[of "\<lparr>KNN_heart_pkl = Pickled constant_classifier,
      scaler_pkl = Missing, columns_pkl = Pickled drop_first_columns\<rparr>"]
  by simp

text \<open>
  Claim C4 as it is stated fails: with a model file that does not deserialise and no
  scaler file, a file is absent, yet the exception of the unpickler leaves the loader,
  since the handler of line 100 catches \<open>FileNotFoundError\<close> only.
\<close>

theorem load_assets_damaged_counterexample:
  "scaler_pkl \<lparr>KNN_heart_pkl = Damaged, scaler_pkl = (Missing :: unit scaler stored),
                columns_pkl = Pickled drop_first_columns\<rparr> = Missing \<and>
   load_assets \<lparr>KNN_heart_pkl = Damaged, scaler_pkl = (Missing :: unit scaler stored),
                columns_pkl = Pickled drop_first_columns\<rparr> = Inl UnpicklingError \<and>
   load_assets \<lparr>KNN_heart_pkl = Damaged, scaler_pkl = (Missing :: unit scaler stored),
                columns_pkl = Pickled drop_first_columns\<rparr> \<noteq> Inr (None, None, None)"
  by (simp add: load_assets_def load_assets_try_def)

text \<open>
  Claim C5. When one of the three loaded values is \<open>None\<close>, the page holds the page
  configuration, the theme and the error message and the run stops there: no element of
  the form or of the handling of a request is on the page. This holds for the values
  that the loader returns, too.
\<close>

theorem missing_asset_blocks:
  assumes "model = None \<or> scaler = None \<or> expected_columns = None"
  shows "after_load (model, scaler, expected_columns) w =
           ([PageConfig, ThemeCss, Error ''Error: Critical model files are missing.''],
            Stopped) \<and>
         (load_assets d = Inr (model, scaler, expected_columns) \<longrightarrow>
            script d w =
              ([PageConfig, ThemeCss, Error ''Error: Critical model files are missing.''],
               Stopped)) \<and>
         \<not> list_ex form_or_request (fst (after_load (model, scaler, expected_columns) w))"
proof -
  from assms have "after_load (model, scaler, expected_columns) w =
           ([PageConfig, ThemeCss, Error ''Error: Critical model files are missing.''],
            Stopped)"
    by (auto simp: after_load_def)
  then show ?thesis
    by (simp add: script_def)
qed

theorem missing_asset_blocks_witness:
  "after_load (Some constant_classifier, None, Some drop_first_columns)
     (form.extend scenario_form \<lparr>analyze_clicked = True\<rparr>) =
     ([PageConfig, ThemeCss, Error ''Error: Critical model files are missing.''], Stopped) \<and>
   load_assets \<lparr>KNN_heart_pkl = Pickled constant_classifier, scaler_pkl = Pickled unit_scaler,
                columns_pkl = Missing\<rparr> = Inr (None, None, None) \<and>
   script \<lparr>KNN_heart_pkl = Pickled constant_classifier, scaler_pkl = Pickled unit_scaler,
           columns_pkl = Missing\<rparr>
     (form.extend scenario_form \<lparr>analyze_clicked = True\<rparr>) =
     ([PageConfig, ThemeCss, Error ''Error: Critical model files are missing.''], Stopped)"
proof -
  let ?d = "\<lparr>KNN_heart_pkl = Pickled constant_classifier, scaler_pkl = Pickled unit_scaler,
             columns_pkl = Missing\<rparr>"
  let ?w = "form.extend scenario_form \<lparr>analyze_clicked = True\<rparr>"
  have l: "load_assets ?d = Inr (None, None, None)"
    by (simp add: load_assets_def load_assets_try_def)
  from l missing_asset_blocks[of None None None ?w ?d]
    missing_asset_blocks[of "Some constant_classifier" None "Some drop_first_columns" ?w ?d]
  show ?thesis
    by simp
qed

end
